theory Spec2Isabelle
  imports Main
begin

section \<open>Data model of \<open>src/log.ts\<close>\<close>

text \<open>
  JavaScript values that occur as query parameter values. An options object is a finite
  map from property names to values; \<open>{...options, container: containerName}\<close> is a
  map update.
\<close>

datatype jsval = JUndefined | JNull | JBool bool | JNum int | JStr string

type_synonym jsobject = "string \<rightharpoonup> jsval"

type_synonym LogOptions = jsobject

record Cluster =
  server :: string

text \<open>
  \<open>request.Options\<close>: the descriptor built in lines 93 to 100 has the three fields
  \<open>method\<close> (here \<open>http_method\<close>), \<open>qs\<close> and \<open>uri\<close>; every other field of the
  descriptor (headers, certificates, ...) is absent there and is what \<open>applyToRequest\<close>
  may add, kept in \<open>others\<close>.
\<close>

record Options =
  http_method :: string
  qs :: jsobject
  uri :: string
  others :: jsobject

record Response =
  statusCode :: nat

text \<open>
  The body carried by an \<open>HttpError\<close> is the deserialized \<open>V1Status\<close> (type \<open>'s\<close>, declared
  outside this file) or the raw response text.
\<close>

datatype 's body = Deserialized 's | Raw string

datatype 's error = Error string | HttpError Response "'s body" nat

text \<open>The in-flight request object returned by \<open>request(requestOptions, callback)\<close>.\<close>

datatype Request = Request Options

text \<open>The values \<open>done\<close> is called with (\<open>err: any\<close>): \<open>null\<close>, an error, or the body text.\<close>

datatype 's any = Null | Err "'s error" | Str string

text \<open>
  \<open>KubeConfig\<close> is declared in \<open>./config\<close>; the two operations used here are parameters:
  \<open>getCurrentCluster()\<close> gives the cluster or \<open>null\<close>, and the awaited \<open>applyToRequest\<close>
  either rejects with an error or leaves the decorated descriptor.
\<close>

record 's KubeConfig =
  getCurrentCluster :: "Cluster option"
  applyToRequest :: "Options \<Rightarrow> 's error + Options"

text \<open>
  \<open>JSON.parse\<close> and \<open>ObjectSerializer.deserialize(_, 'V1Status')\<close> are parameters as well;
  \<open>None\<close> stands for a thrown exception, which the \<open>try\<close>/\<open>catch\<close> of lines 109 to 114
  catches.
\<close>

record ('j, 's) Globals =
  JSON_parse :: "string \<Rightarrow> 'j option"
  deserialize :: "'j \<Rightarrow> 's option"

text \<open>
  The fifth argument \<open>doneOrOptions\<close>: a function (the callback acts on the state \<open>'u\<close> of
  its owner), an options object, or \<open>undefined\<close>.
\<close>

datatype ('s, 'u) doneOrOptions =
  Function "'s any \<Rightarrow> 'u \<Rightarrow> 'u" | Object LogOptions | Undefined

datatype 's promise = Pending | Fulfilled Request | Rejected "'s error"

text \<open>
  Everything one invocation can touch: the promise it returned, the descriptors handed to
  \<open>applyToRequest\<close> and to \<open>request\<close>, the variables \<open>req\<close> and \<open>done\<close> its handlers close
  over, whether \<open>req.pipe(stream)\<close> has run, the bytes written to \<open>stream\<close>, and the state
  of the callback's owner.
\<close>

record ('s, 'u) world =
  promise :: "'s promise"
  applied :: "Options list"
  issued :: "Options list"
  req :: "Request option"
  done_cb :: "'s any \<Rightarrow> 'u \<Rightarrow> 'u"
  piped :: bool
  stream :: string
  owner :: 'u

section \<open>Promise and callback primitives\<close>

text \<open>Settling a promise takes effect only while it is pending.\<close>

definition resolve :: "Request \<Rightarrow> ('s, 'u) world \<Rightarrow> ('s, 'u) world" where
  "resolve r w = (if promise w = Pending then w\<lparr>promise := Fulfilled r\<rparr> else w)"

definition reject :: "'s error \<Rightarrow> ('s, 'u) world \<Rightarrow> ('s, 'u) world" where
  "reject e w = (if promise w = Pending then w\<lparr>promise := Rejected e\<rparr> else w)"

definition call_done :: "'s any \<Rightarrow> ('s, 'u) world \<Rightarrow> ('s, 'u) world" where
  "call_done a w = w\<lparr>owner := done_cb w a (owner w)\<rparr>"

section \<open>\<open>Log.log\<close>\<close>

text \<open>Line 85: the path template.\<close>

definition path :: "string \<Rightarrow> string \<Rightarrow> string" where
  "path namespace podName =
     ''/api/v1/namespaces/'' @ namespace @ ''/pods/'' @ podName @ ''/log''"

text \<open>Lines 95 to 98: spreading \<open>undefined\<close> contributes no property.\<close>

definition spread :: "LogOptions option \<Rightarrow> jsobject" where
  "spread options = (case options of None \<Rightarrow> Map.empty | Some obj \<Rightarrow> obj)"

text \<open>Lines 91 to 100.\<close>

definition requestOptions :: "Cluster \<Rightarrow> string \<Rightarrow> string \<Rightarrow> string \<Rightarrow> LogOptions option \<Rightarrow> Options" where
  "requestOptions cluster namespace podName containerName options =
     \<lparr>http_method = ''GET'',
      qs = (spread options)(''container'' \<mapsto> JStr containerName),
      uri = server cluster @ path namespace podName,
      others = Map.empty\<rparr>"

text \<open>
  Lines 78 to 83: \<open>done\<close> starts as the function that does nothing; a fifth argument that
  is a function replaces it, any other fifth argument replaces \<open>options\<close>.
\<close>

definition arguments ::
  "('s, 'u) doneOrOptions \<Rightarrow> LogOptions option \<Rightarrow> ('s any \<Rightarrow> 'u \<Rightarrow> 'u) \<times> LogOptions option" where
  "arguments doneOrOptions options =
     (case doneOrOptions of
        Function f \<Rightarrow> (f, options)
      | Object obj \<Rightarrow> (\<lambda>_ s. s, Some obj)
      | Undefined \<Rightarrow> (\<lambda>_ s. s, None))"

text \<open>
  Lines 78 to 103, up to the creation of the request. \<open>sink\<close> is what the writable
  \<open>stream\<close> holds when the call is made and \<open>u\<close> the state of the callback's owner.
  A \<open>throw\<close> and a rejected \<open>await\<close> both reject the promise the async function returned.
\<close>

definition Log_log ::
  "'s KubeConfig \<Rightarrow> string \<Rightarrow> string \<Rightarrow> string \<Rightarrow> string \<Rightarrow> ('s, 'u) doneOrOptions \<Rightarrow>
   LogOptions option \<Rightarrow> 'u \<Rightarrow> ('s, 'u) world" where
  "Log_log config namespace podName containerName sink doneOrOptions options u =
     (let (dn, opts) = arguments doneOrOptions options;
          w = \<lparr>promise = Pending, applied = [], issued = [], req = None, done_cb = dn,
               piped = False, stream = sink, owner = u\<rparr>
      in case getCurrentCluster config of
           None \<Rightarrow> w\<lparr>promise := Rejected (Error ''No currently active cluster'')\<rparr>
         | Some cluster \<Rightarrow>
             (let ro = requestOptions cluster namespace podName containerName opts
              in case applyToRequest config ro of
                   Inl e \<Rightarrow> w\<lparr>applied := [ro], promise := Rejected e\<rparr>
                 | Inr ro' \<Rightarrow> w\<lparr>applied := [ro], issued := [ro'], req := Some (Request ro')\<rparr>))"

text \<open>
  Lines 104 to 118: the completion callback \<open>(error, response, body)\<close>. It is called
  either with an error, or with the response and its buffered body.
\<close>

datatype 's completion = Failed "'s error" | Finished Response string

fun callback :: "('j, 's) Globals \<Rightarrow> 's completion \<Rightarrow> ('s, 'u) world \<Rightarrow> ('s, 'u) world" where
  "callback G (Failed err) w = call_done (Err err) (reject err w)"
| "callback G (Finished response body) w =
     (if statusCode response \<noteq> 200 then
        call_done (Str body)
          (case JSON_parse G body of
             None \<Rightarrow> reject (HttpError response (Raw body) (statusCode response)) w
           | Some j \<Rightarrow>
               (case deserialize G j of
                  None \<Rightarrow> reject (HttpError response (Raw body) (statusCode response)) w
                | Some deserializedBody \<Rightarrow>
                    reject (HttpError response (Deserialized deserializedBody)
                              (statusCode response)) w))
      else call_done Null w)"

text \<open>Lines 119 to 124: the handler of the \<open>response\<close> event.\<close>

definition on_response :: "Request \<Rightarrow> Response \<Rightarrow> ('s, 'u) world \<Rightarrow> ('s, 'u) world" where
  "on_response r response w =
     (if statusCode response = 200 then resolve r (w\<lparr>piped := True\<rparr>) else w)"

section \<open>The transport\<close>

text \<open>
  What the \<open>request\<close> library delivers to the handlers registered above: the \<open>response\<close>
  event when the headers arrive, chunks of the body (written to every destination the
  request is piped into), and one call of the completion callback.
\<close>

datatype 's event = Headers Response | Data string | Completion "'s completion"

definition write_chunk :: "string \<Rightarrow> ('s, 'u) world \<Rightarrow> ('s, 'u) world" where
  "write_chunk chunk w = (if piped w then w\<lparr>stream := stream w @ chunk\<rparr> else w)"

text \<open>Handlers exist only once the request has been created.\<close>

definition deliver :: "('j, 's) Globals \<Rightarrow> 's event \<Rightarrow> ('s, 'u) world \<Rightarrow> ('s, 'u) world" where
  "deliver G ev w =
     (case req w of
        None \<Rightarrow> w
      | Some r \<Rightarrow>
          (case ev of
             Headers response \<Rightarrow> on_response r response w
           | Data chunk \<Rightarrow> write_chunk chunk w
           | Completion c \<Rightarrow> callback G c w))"

fun run :: "('j, 's) Globals \<Rightarrow> 's event list \<Rightarrow> ('s, 'u) world \<Rightarrow> ('s, 'u) world" where
  "run G [] w = w"
| "run G (ev # evs) w = run G evs (deliver G ev w)"

text \<open>
  A finished exchange, as the library runs it: the connection fails before any headers;
  or the headers arrive, the body arrives in chunks and the callback gets the response
  with the whole body; or the headers arrive and an error ends the exchange after some
  chunks.
\<close>

datatype 's exchange =
  NoResponse "'s error"
| Complete Response "string list"
| Broken Response "string list" "'s error"

fun events :: "'s exchange \<Rightarrow> 's event list" where
  "events (NoResponse err) = [Completion (Failed err)]"
| "events (Complete response chunks) =
     Headers response # map Data chunks @ [Completion (Finished response (concat chunks))]"
| "events (Broken response chunks err) =
     Headers response # map Data chunks @ [Completion (Failed err)]"

text \<open>Projections of an exchange: the error that ended it, the status of its headers.\<close>

fun transport_error :: "'s exchange \<Rightarrow> 's error option" where
  "transport_error (NoResponse err) = Some err"
| "transport_error (Complete response chunks) = None"
| "transport_error (Broken response chunks err) = Some err"

text \<open>The event that makes the \<open>response\<close> handler pipe: headers with status 200.\<close>

fun ok_headers :: "'s event \<Rightarrow> bool" where
  "ok_headers (Headers response) = (statusCode response = 200)"
| "ok_headers (Data chunk) = False"
| "ok_headers (Completion c) = False"

text \<open>What the caller of \<open>Log.log\<close> can see of an invocation, the callback's effect apart.\<close>

definition observable ::
  "('s, 'u) world \<Rightarrow> 's promise \<times> Options list \<times> Options list \<times> Request option \<times> bool \<times> string" where
  "observable w = (promise w, applied w, issued w, req w, piped w, stream w)"

fun headers_status :: "'s exchange \<Rightarrow> nat option" where
  "headers_status (NoResponse err) = None"
| "headers_status (Complete response chunks) = Some (statusCode response)"
| "headers_status (Broken response chunks err) = Some (statusCode response)"

section \<open>Sample inputs\<close>

text \<open>A configuration with a cluster, a parser that always fails, and the descriptor of a sample call.\<close>

abbreviation sample_config :: "unit KubeConfig" where
  "sample_config \<equiv> \<lparr>getCurrentCluster = Some \<lparr>server = ''https://k8s''\<rparr>, applyToRequest = Inr\<rparr>"

abbreviation sample_globals :: "(unit, unit) Globals" where
  "sample_globals \<equiv> \<lparr>JSON_parse = Map.empty, deserialize = Map.empty\<rparr>"

abbreviation sample_request :: Options where
  "sample_request \<equiv>
     \<lparr>http_method = ''GET'', qs = [''container'' \<mapsto> JStr ''nginx''],
      uri = ''https://k8s/api/v1/namespaces/default/pods/web-0/log'', others = Map.empty\<rparr>"

section \<open>Auxiliary facts about the handlers\<close>

lemma run_append: "run G (xs @ ys) w = run G ys (run G xs w)"
  by (induction xs arbitrary: w) simp_all

lemma run_no_request: "req w = None \<Longrightarrow> run G evs w = w"
  by (induction evs) (simp_all add: deliver_def)

lemma req_callback: "req (callback G c w) = req w"
  by (cases c) (simp_all add: reject_def call_done_def split: option.splits)

lemma req_deliver: "req (deliver G ev w) = req w"
  by (cases ev; cases "req w")
     (simp_all add: deliver_def on_response_def resolve_def write_chunk_def req_callback)

lemma req_run: "req (run G evs w) = req w"
  by (induction evs arbitrary: w) (simp_all add: req_deliver)

lemma settled_callback: "promise w \<noteq> Pending \<Longrightarrow> promise (callback G c w) = promise w"
  by (cases c) (simp_all add: reject_def call_done_def split: option.splits)

lemma settled_deliver: "promise w \<noteq> Pending \<Longrightarrow> promise (deliver G ev w) = promise w"
  by (cases ev; cases "req w")
     (simp_all add: deliver_def on_response_def resolve_def write_chunk_def settled_callback)

lemma settled_run: "promise w \<noteq> Pending \<Longrightarrow> promise (run G evs w) = promise w"
  by (induction evs arbitrary: w) (simp_all add: settled_deliver)

lemma Log_log_not_issued:
  "issued (Log_log config ns pod cn sink d opts u) = [] \<Longrightarrow>
   req (Log_log config ns pod cn sink d opts u) = None \<and>
   (\<exists>e. promise (Log_log config ns pod cn sink d opts u) = Rejected e)"
  by (simp add: Log_log_def Let_def split: prod.splits option.splits sum.splits)

lemma Log_log_issued:
  "issued (Log_log config ns pod cn sink d opts u) = ro # ros \<Longrightarrow>
   ros = [] \<and>
   req (Log_log config ns pod cn sink d opts u) = Some (Request ro) \<and>
   promise (Log_log config ns pod cn sink d opts u) = Pending \<and>
   \<not> piped (Log_log config ns pod cn sink d opts u) \<and>
   stream (Log_log config ns pod cn sink d opts u) = sink"
  by (simp add: Log_log_def Let_def split: prod.splits option.splits sum.splits)

lemma run_Data_unpiped: "\<not> piped w \<Longrightarrow> run G (map Data chunks) w = w"
  by (induction chunks) (simp_all add: deliver_def write_chunk_def split: option.splits)

lemma run_Data_piped:
  "piped w \<Longrightarrow> req w = Some r \<Longrightarrow> run G (map Data chunks) w = w\<lparr>stream := stream w @ concat chunks\<rparr>"
  by (induction chunks arbitrary: w) (simp_all add: deliver_def write_chunk_def)

lemma run_NoResponse:
  "req w = Some r \<Longrightarrow> promise w = Pending \<Longrightarrow>
   run G (events (NoResponse err)) w = w\<lparr>promise := Rejected err, owner := done_cb w (Err err) (owner w)\<rparr>"
  by (simp add: deliver_def reject_def call_done_def)

lemma run_Complete_ok:
  "req w = Some r \<Longrightarrow> promise w = Pending \<Longrightarrow> statusCode response = 200 \<Longrightarrow>
   run G (events (Complete response chunks)) w =
     w\<lparr>promise := Fulfilled r, piped := True, stream := stream w @ concat chunks,
       owner := done_cb w Null (owner w)\<rparr>"
  by (simp add: run_append run_Data_piped deliver_def on_response_def resolve_def call_done_def)

lemma run_Complete_other:
  "req w = Some r \<Longrightarrow> promise w = Pending \<Longrightarrow> \<not> piped w \<Longrightarrow> statusCode response \<noteq> 200 \<Longrightarrow>
   run G (events (Complete response chunks)) w =
     w\<lparr>promise := Rejected (HttpError response
                    (case Option.bind (JSON_parse G (concat chunks)) (deserialize G) of
                       None \<Rightarrow> Raw (concat chunks) | Some s \<Rightarrow> Deserialized s)
                    (statusCode response)),
       owner := done_cb w (Str (concat chunks)) (owner w)\<rparr>"
  by (simp add: run_append run_Data_unpiped deliver_def on_response_def reject_def call_done_def
           split: option.splits)

lemma run_Broken_ok:
  "req w = Some r \<Longrightarrow> promise w = Pending \<Longrightarrow> statusCode response = 200 \<Longrightarrow>
   run G (events (Broken response chunks err)) w =
     w\<lparr>promise := Fulfilled r, piped := True, stream := stream w @ concat chunks,
       owner := done_cb w (Err err) (owner w)\<rparr>"
  by (simp add: run_append run_Data_piped deliver_def on_response_def resolve_def reject_def call_done_def)

lemma run_Broken_other:
  "req w = Some r \<Longrightarrow> promise w = Pending \<Longrightarrow> \<not> piped w \<Longrightarrow> statusCode response \<noteq> 200 \<Longrightarrow>
   run G (events (Broken response chunks err)) w =
     w\<lparr>promise := Rejected err, owner := done_cb w (Err err) (owner w)\<rparr>"
  by (simp add: run_append run_Data_unpiped deliver_def on_response_def reject_def call_done_def)

lemmas model_defs = Log_log_def arguments_def requestOptions_def path_def spread_def deliver_def
  on_response_def resolve_def reject_def call_done_def write_chunk_def Let_def

lemma Log_log_owner: "owner (Log_log config ns pod cn sink d opts u) = u"
  by (simp add: Log_log_def Let_def split: prod.splits option.splits sum.splits)

lemma Log_log_done_cb: "done_cb (Log_log config ns pod cn sink d opts u) = fst (arguments d opts)"
  by (simp add: Log_log_def Let_def split: prod.splits option.splits sum.splits)

lemma Log_log_applied:
  "getCurrentCluster config = Some cluster \<Longrightarrow>
   applied (Log_log config ns pod cn sink d opts u) =
     [requestOptions cluster ns pod cn (snd (arguments d opts))]"
  by (simp add: Log_log_def Let_def split: prod.splits option.splits sum.splits)

lemma Log_log_applied_if:
  "applied (Log_log config ns pod cn sink d opts u) =
     (case getCurrentCluster config of
        None \<Rightarrow> []
      | Some cluster \<Rightarrow> [requestOptions cluster ns pod cn (snd (arguments d opts))])"
  by (simp add: Log_log_def Let_def split: prod.splits option.splits sum.splits)

lemma quiet_callback: "piped (callback G c w) = piped w \<and> stream (callback G c w) = stream w"
  by (cases c) (simp_all add: reject_def call_done_def split: option.splits)

lemma quiet_deliver:
  "\<not> piped w \<Longrightarrow> \<not> ok_headers ev \<Longrightarrow>
   \<not> piped (deliver G ev w) \<and> stream (deliver G ev w) = stream w"
  by (cases ev; cases "req w")
     (simp_all add: deliver_def on_response_def write_chunk_def quiet_callback)

lemma quiet_run:
  "\<not> piped w \<Longrightarrow> \<not> list_ex ok_headers evs \<Longrightarrow>
   \<not> piped (run G evs w) \<and> stream (run G evs w) = stream w"
proof (induction evs arbitrary: w)
  case Nil
  then show ?case by simp
next
  case (Cons ev evs)
  then have "\<not> ok_headers ev" and rest: "\<not> list_ex ok_headers evs" by simp_all
  with Cons.prems(1) have "\<not> piped (deliver G ev w)" and "stream (deliver G ev w) = stream w"
    using quiet_deliver by blast+
  with Cons.IH [of "deliver G ev w"] rest show ?case by simp
qed

lemma events_no_ok_headers:
  "headers_status x \<noteq> Some 200 \<Longrightarrow> \<not> list_ex ok_headers (events x)"
  by (cases x) (simp_all add: list_ex_iff image_iff)

lemma Log_log_fresh:
  "\<not> piped (Log_log config ns pod cn sink d opts u) \<and>
   stream (Log_log config ns pod cn sink d opts u) = sink"
  by (simp add: Log_log_def Let_def split: prod.splits option.splits sum.splits)

lemma observable_fields:
  "observable w = observable w' \<longleftrightarrow>
   promise w = promise w' \<and> applied w = applied w' \<and> issued w = issued w' \<and>
   req w = req w' \<and> piped w = piped w' \<and> stream w = stream w'"
  unfolding observable_def by blast

lemma observable_call_done: "observable (call_done a w) = observable w"
  by (simp add: observable_def call_done_def)

lemma observable_reject:
  assumes "observable w = observable w'"
  shows "observable (reject e w) = observable (reject e w')"
proof -
  from assms have eq: "promise w = promise w'" "applied w = applied w'" "issued w = issued w'"
    "req w = req w'" "piped w = piped w'" "stream w = stream w'"
    unfolding observable_fields by blast+
  show ?thesis
    unfolding observable_def reject_def using eq by simp
qed

lemma observable_callback:
  assumes "observable w = observable w'"
  shows "observable (callback G c w) = observable (callback G c w')"
proof (cases c)
  case (Failed err)
  show ?thesis
    unfolding Failed callback.simps observable_call_done
    by (rule observable_reject [OF assms])
next
  case (Finished response body)
  show ?thesis
    unfolding Finished callback.simps
    by (simp add: observable_call_done observable_reject [OF assms] assms split: option.splits)
qed

lemma observable_deliver:
  assumes "observable w = observable w'"
  shows "observable (deliver G ev w) = observable (deliver G ev w')"
proof -
  from assms have eq: "promise w = promise w'" "applied w = applied w'" "issued w = issued w'"
    "req w = req w'" "piped w = piped w'" "stream w = stream w'"
    unfolding observable_fields by blast+
  show ?thesis
  proof (cases "req w'")
    case None
    with eq(4) have "req w = None" by simp
    with None show ?thesis unfolding deliver_def by (simp add: assms)
  next
    case (Some r)
    with eq(4) have r: "req w = Some r" by simp
    show ?thesis
    proof (cases ev)
      case (Headers response)
      show ?thesis
        unfolding Headers deliver_def observable_def on_response_def resolve_def
        using Some r eq(1,2,3,5,6) by simp
    next
      case (Data chunk)
      show ?thesis
        unfolding Data deliver_def observable_def write_chunk_def
        using Some r eq(1,2,3,5,6) by simp
    next
      case (Completion c)
      show ?thesis
        unfolding Completion deliver_def
        using Some r observable_callback [OF assms, of G c] by simp
    qed
  qed
qed

lemma observable_run:
  "observable w = observable w' \<Longrightarrow> observable (run G evs w) = observable (run G evs w')"
proof (induction evs arbitrary: w w')
  case Nil
  then show ?case by simp
next
  case (Cons ev evs)
  from Cons.IH [OF observable_deliver [OF Cons.prems, of G ev]] show ?case by simp
qed

lemma done_cb_callback: "done_cb (callback G c w) = done_cb w"
  by (cases c) (simp_all add: reject_def call_done_def split: option.splits)

lemma done_cb_deliver: "done_cb (deliver G ev w) = done_cb w"
  by (cases ev; cases "req w")
     (simp_all add: deliver_def on_response_def resolve_def write_chunk_def done_cb_callback)

lemma owner_callback_noop:
  assumes "\<And>a s. done_cb w a s = s"
  shows "owner (callback G c w) = owner w"
  by (cases c) (simp_all add: reject_def call_done_def assms split: option.splits)

lemma owner_deliver_noop:
  assumes "\<And>a s. done_cb w a s = s"
  shows "owner (deliver G ev w) = owner w"
  by (cases ev; cases "req w")
     (simp_all add: deliver_def on_response_def resolve_def write_chunk_def
        owner_callback_noop [OF assms])

lemma owner_run_noop:
  "(\<And>a s. done_cb w a s = s) \<Longrightarrow> owner (run G evs w) = owner w"
proof (induction evs arbitrary: w)
  case Nil
  show ?case by simp
next
  case (Cons ev evs)
  have "\<And>a s. done_cb (deliver G ev w) a s = s"
    by (simp add: done_cb_deliver Cons.prems)
  from Cons.IH [OF this] show ?case
    by (simp add: owner_deliver_noop [OF Cons.prems])
qed

section \<open>Properties of \<open>Log.log\<close>\<close>

text \<open>
  C1. Whatever the configuration, the arguments and the exchange the transport runs, the
  promise returned by \<open>Log.log\<close> ends either fulfilled (with the request) or rejected
  (with an error), never pending and never both; and once it is settled, no later event
  changes it, so at most one resolve or reject takes effect.
\<close>

theorem C1_exactly_one_outcome:
  "((\<exists>r. promise (run G (events x) (Log_log config ns pod cn sink d opts u)) = Fulfilled r) \<noteq>
    (\<exists>e. promise (run G (events x) (Log_log config ns pod cn sink d opts u)) = Rejected e)) \<and>
   (promise (run G evs (Log_log config ns pod cn sink d opts u)) \<noteq> Pending \<longrightarrow>
    promise (run G (evs @ evs') (Log_log config ns pod cn sink d opts u)) =
    promise (run G evs (Log_log config ns pod cn sink d opts u)))"
proof
  let ?w = "Log_log config ns pod cn sink d opts u"
  show "(\<exists>r. promise (run G (events x) ?w) = Fulfilled r) \<noteq>
        (\<exists>e. promise (run G (events x) ?w) = Rejected e)"
  proof (cases "issued ?w")
    case Nil
    from Log_log_not_issued [OF Nil]
    obtain e where "req ?w = None" and "promise ?w = Rejected e" by auto
    then show ?thesis by (simp add: run_no_request)
  next
    case (Cons ro ros)
    from Log_log_issued [OF Cons]
    have st: "req ?w = Some (Request ro)" "promise ?w = Pending" "\<not> piped ?w" by simp_all
    show ?thesis
    proof (cases x)
      case (NoResponse err)
      show ?thesis
        unfolding NoResponse run_NoResponse [OF st(1) st(2)] by simp
    next
      case (Complete response chunks)
      show ?thesis
      proof (cases "statusCode response = 200")
        case True
        show ?thesis
          unfolding Complete run_Complete_ok [OF st(1) st(2) True] by simp
      next
        case False
        show ?thesis
          unfolding Complete run_Complete_other [OF st False] by simp
      qed
    next
      case (Broken response chunks err)
      show ?thesis
      proof (cases "statusCode response = 200")
        case True
        show ?thesis
          unfolding Broken run_Broken_ok [OF st(1) st(2) True] by simp
      next
        case False
        show ?thesis
          unfolding Broken run_Broken_other [OF st False] by simp
      qed
    qed
  qed
next
  show "promise (run G evs (Log_log config ns pod cn sink d opts u)) \<noteq> Pending \<longrightarrow>
    promise (run G (evs @ evs') (Log_log config ns pod cn sink d opts u)) =
    promise (run G evs (Log_log config ns pod cn sink d opts u))"
    by (simp add: run_append settled_run)
qed

theorem C1_exactly_one_outcome_witness:
  "promise (run \<lparr>JSON_parse = Map.empty :: string \<Rightarrow> unit option, deserialize = Map.empty :: unit \<Rightarrow> unit option\<rparr>
      [Headers \<lparr>statusCode = 200\<rparr>]
      (Log_log \<lparr>getCurrentCluster = Some \<lparr>server = ''https://k8s''\<rparr>, applyToRequest = Inr\<rparr>
         ''default'' ''web-0'' ''nginx'' [] Undefined None ())) \<noteq> Pending \<and>
   promise (run \<lparr>JSON_parse = Map.empty :: string \<Rightarrow> unit option, deserialize = Map.empty :: unit \<Rightarrow> unit option\<rparr>
      ([Headers \<lparr>statusCode = 200\<rparr>] @ [Completion (Failed (Error ''ECONNRESET''))])
      (Log_log \<lparr>getCurrentCluster = Some \<lparr>server = ''https://k8s''\<rparr>, applyToRequest = Inr\<rparr>
         ''default'' ''web-0'' ''nginx'' [] Undefined None ())) =
   Fulfilled (Request \<lparr>http_method = ''GET'', qs = [''container'' \<mapsto> JStr ''nginx''],
      uri = ''https://k8s/api/v1/namespaces/default/pods/web-0/log'', others = Map.empty\<rparr>)"
  using C1_exactly_one_outcome
    [of "\<lparr>JSON_parse = Map.empty :: string \<Rightarrow> unit option, deserialize = Map.empty :: unit \<Rightarrow> unit option\<rparr>"
        _ "\<lparr>getCurrentCluster = Some \<lparr>server = ''https://k8s''\<rparr>, applyToRequest = Inr\<rparr>"
        "''default''" "''web-0''" "''nginx''" "[]" Undefined None "()"
        "[Headers \<lparr>statusCode = 200\<rparr>]" "[Completion (Failed (Error ''ECONNRESET''))]"]
  by (simp add: model_defs)

text \<open>
  C2. When the configuration has no current cluster, the promise is rejected with the
  error \<open>No currently active cluster\<close>; \<open>applyToRequest\<close> is not called, no request is
  issued and nothing is written to the stream, whatever happens afterwards.
\<close>

theorem C2_no_cluster:
  assumes "getCurrentCluster config = None"
  shows "promise (run G evs (Log_log config ns pod cn sink d opts u)) =
           Rejected (Error ''No currently active cluster'') \<and>
         applied (run G evs (Log_log config ns pod cn sink d opts u)) = [] \<and>
         issued (run G evs (Log_log config ns pod cn sink d opts u)) = [] \<and>
         stream (run G evs (Log_log config ns pod cn sink d opts u)) = sink"
proof -
  let ?w = "Log_log config ns pod cn sink d opts u"
  have p: "promise ?w = Rejected (Error ''No currently active cluster'')"
    and a: "applied ?w = []" and i: "issued ?w = []" and s: "stream ?w = sink"
    using assms by (simp_all add: Log_log_def Let_def split: prod.splits)
  have "req ?w = None" using Log_log_not_issued [OF i] by simp
  then have r: "run G evs ?w = ?w" by (rule run_no_request)
  show ?thesis unfolding r using p a i s by simp
qed

theorem C2_no_cluster_witness:
  "getCurrentCluster \<lparr>getCurrentCluster = None, applyToRequest = Inr :: Options \<Rightarrow> unit error + Options\<rparr> = None \<and>
   promise (run \<lparr>JSON_parse = Map.empty :: string \<Rightarrow> unit option, deserialize = Map.empty :: unit \<Rightarrow> unit option\<rparr>
      [Headers \<lparr>statusCode = 200\<rparr>, Data ''line1'']
      (Log_log \<lparr>getCurrentCluster = None, applyToRequest = Inr\<rparr>
         ''default'' ''web-0'' ''nginx'' ''old'' Undefined None ())) =
     Rejected (Error ''No currently active cluster'') \<and>
   applied (run \<lparr>JSON_parse = Map.empty :: string \<Rightarrow> unit option, deserialize = Map.empty :: unit \<Rightarrow> unit option\<rparr>
      [Headers \<lparr>statusCode = 200\<rparr>, Data ''line1'']
      (Log_log \<lparr>getCurrentCluster = None, applyToRequest = Inr :: Options \<Rightarrow> unit error + Options\<rparr>
         ''default'' ''web-0'' ''nginx'' ''old'' Undefined None ())) = [] \<and>
   issued (run \<lparr>JSON_parse = Map.empty :: string \<Rightarrow> unit option, deserialize = Map.empty :: unit \<Rightarrow> unit option\<rparr>
      [Headers \<lparr>statusCode = 200\<rparr>, Data ''line1'']
      (Log_log \<lparr>getCurrentCluster = None, applyToRequest = Inr :: Options \<Rightarrow> unit error + Options\<rparr>
         ''default'' ''web-0'' ''nginx'' ''old'' Undefined None ())) = [] \<and>
   stream (run \<lparr>JSON_parse = Map.empty :: string \<Rightarrow> unit option, deserialize = Map.empty :: unit \<Rightarrow> unit option\<rparr>
      [Headers \<lparr>statusCode = 200\<rparr>, Data ''line1'']
      (Log_log \<lparr>getCurrentCluster = None, applyToRequest = Inr :: Options \<Rightarrow> unit error + Options\<rparr>
         ''default'' ''web-0'' ''nginx'' ''old'' Undefined None ())) = ''old''"
proof -
  have h: "getCurrentCluster \<lparr>getCurrentCluster = None, applyToRequest = Inr :: Options \<Rightarrow> unit error + Options\<rparr> = None"
    by simp
  show ?thesis by (rule conjI [OF h C2_no_cluster [OF h]])
qed

text \<open>
  C3. Once the request is issued, headers with status 200 make the handler pipe the
  request into the stream and fulfil the promise with the request; over the whole
  exchange, ended by completion or by an error, every chunk of the body is appended to
  the stream unchanged and the promise stays fulfilled.
\<close>

theorem C3_ok_response:
  assumes "issued (Log_log config ns pod cn sink d opts u) = [ro]"
    and "statusCode response = 200"
  shows "piped (run G [Headers response] (Log_log config ns pod cn sink d opts u)) \<and>
     promise (run G [Headers response] (Log_log config ns pod cn sink d opts u)) = Fulfilled (Request ro) \<and>
     stream (run G (events (Complete response chunks)) (Log_log config ns pod cn sink d opts u)) =
       sink @ concat chunks \<and>
     promise (run G (events (Complete response chunks)) (Log_log config ns pod cn sink d opts u)) =
       Fulfilled (Request ro) \<and>
     stream (run G (events (Broken response chunks err)) (Log_log config ns pod cn sink d opts u)) =
       sink @ concat chunks \<and>
     promise (run G (events (Broken response chunks err)) (Log_log config ns pod cn sink d opts u)) =
       Fulfilled (Request ro)"
proof -
  let ?w = "Log_log config ns pod cn sink d opts u"
  from Log_log_issued [OF assms(1)]
  have st: "req ?w = Some (Request ro)" "promise ?w = Pending" and s: "stream ?w = sink"
    by simp_all
  have h: "piped (run G [Headers response] ?w) \<and>
           promise (run G [Headers response] ?w) = Fulfilled (Request ro)"
    using st assms(2) by (simp add: deliver_def on_response_def resolve_def)
  show ?thesis
    unfolding run_Complete_ok [OF st assms(2)] run_Broken_ok [OF st assms(2)]
    using h s by simp
qed

theorem C3_ok_response_witness:
  "issued (Log_log sample_config ''default'' ''web-0'' ''nginx'' ''old'' Undefined None ()) = [sample_request] \<and>
   statusCode \<lparr>statusCode = 200\<rparr> = 200 \<and>
   stream (run sample_globals (events (Complete \<lparr>statusCode = 200\<rparr> [''line1'', ''line2'']))
     (Log_log sample_config ''default'' ''web-0'' ''nginx'' ''old'' Undefined None ())) = ''oldline1line2'' \<and>
   promise (run sample_globals (events (Complete \<lparr>statusCode = 200\<rparr> [''line1'', ''line2'']))
     (Log_log sample_config ''default'' ''web-0'' ''nginx'' ''old'' Undefined None ())) =
     Fulfilled (Request sample_request)"
proof -
  have h1: "issued (Log_log sample_config ''default'' ''web-0'' ''nginx'' ''old'' Undefined None ()) = [sample_request]"
    by (simp add: model_defs)
  have h2: "statusCode \<lparr>statusCode = 200\<rparr> = 200" by simp
  show ?thesis
    using h1 C3_ok_response [OF h1 h2, of sample_globals "[''line1'', ''line2'']"]
    by simp
qed

text \<open>
  C4. An exchange that completes with a status other than 200 rejects the promise with an
  \<open>HttpError\<close> carrying the response, its status code, and the body: deserialized when
  \<open>JSON.parse\<close> and \<open>deserialize\<close> both succeed, the raw text otherwise.
\<close>

theorem C4_api_error:
  assumes "issued (Log_log config ns pod cn sink d opts u) = [ro]"
    and "statusCode response \<noteq> 200"
  shows "promise (run G (events (Complete response chunks)) (Log_log config ns pod cn sink d opts u)) =
     Rejected (HttpError response
       (case Option.bind (JSON_parse G (concat chunks)) (deserialize G) of
          None \<Rightarrow> Raw (concat chunks)
        | Some deserializedBody \<Rightarrow> Deserialized deserializedBody)
       (statusCode response))"
proof -
  let ?w = "Log_log config ns pod cn sink d opts u"
  from Log_log_issued [OF assms(1)]
  have st: "req ?w = Some (Request ro)" "promise ?w = Pending" "\<not> piped ?w"
    by simp_all
  show ?thesis
    unfolding run_Complete_other [OF st assms(2)] by simp
qed

theorem C4_api_error_witness:
  "issued (Log_log sample_config ''default'' ''web-0'' ''nginx'' ''old'' Undefined None ()) = [sample_request] \<and>
   statusCode \<lparr>statusCode = 500\<rparr> \<noteq> 200 \<and>
   promise (run sample_globals (events (Complete \<lparr>statusCode = 500\<rparr> [''internal '', ''error'']))
     (Log_log sample_config ''default'' ''web-0'' ''nginx'' ''old'' Undefined None ())) =
     Rejected (HttpError \<lparr>statusCode = 500\<rparr> (Raw ''internal error'') 500)"
proof -
  have h1: "issued (Log_log sample_config ''default'' ''web-0'' ''nginx'' ''old'' Undefined None ()) = [sample_request]"
    by (simp add: model_defs)
  have h2: "statusCode \<lparr>statusCode = 500\<rparr> \<noteq> 200" by simp
  show ?thesis
    using h1 C4_api_error [OF h1 h2, of sample_globals "[''internal '', ''error'']"]
    by simp
qed

text \<open>
  C5, as amended. A transport error rejects the promise with that error when no headers
  with status 200 came before it (no headers at all, or headers with another status).
  After headers with status 200 the promise is already fulfilled with the request and
  stays so. As stated for every transport error, the claim fails on an error that follows
  headers with status 200.
\<close>

theorem C5_transport_error:
  assumes "issued (Log_log config ns pod cn sink d opts u) = [ro]"
    and "transport_error x = Some err"
  shows "(headers_status x \<noteq> Some 200 \<longrightarrow>
            promise (run G (events x) (Log_log config ns pod cn sink d opts u)) = Rejected err) \<and>
         (headers_status x = Some 200 \<longrightarrow>
            promise (run G (events x) (Log_log config ns pod cn sink d opts u)) = Fulfilled (Request ro))"
proof -
  let ?w = "Log_log config ns pod cn sink d opts u"
  from Log_log_issued [OF assms(1)]
  have st: "req ?w = Some (Request ro)" "promise ?w = Pending" "\<not> piped ?w"
    by simp_all
  show ?thesis
  proof (cases x)
    case (NoResponse e)
    with assms(2) have "e = err" by simp
    then show ?thesis
      unfolding NoResponse run_NoResponse [OF st(1) st(2)] by simp
  next
    case (Complete response chunks)
    with assms(2) show ?thesis by simp
  next
    case (Broken response chunks e)
    with assms(2) have e: "e = err" by simp
    show ?thesis
    proof (cases "statusCode response = 200")
      case True
      show ?thesis
        unfolding Broken run_Broken_ok [OF st(1) st(2) True] using True by simp
    next
      case False
      show ?thesis
        unfolding Broken run_Broken_other [OF st False] using False e by simp
    qed
  qed
qed

theorem C5_transport_error_witness:
  "issued (Log_log sample_config ''default'' ''web-0'' ''nginx'' ''old'' Undefined None ()) = [sample_request] \<and>
   transport_error (NoResponse (Error ''ECONNREFUSED'')) = Some (Error ''ECONNREFUSED'') \<and>
   headers_status (NoResponse (Error ''ECONNREFUSED'' :: unit error)) \<noteq> Some 200 \<and>
   promise (run sample_globals (events (NoResponse (Error ''ECONNREFUSED'')))
     (Log_log sample_config ''default'' ''web-0'' ''nginx'' ''old'' Undefined None ())) =
     Rejected (Error ''ECONNREFUSED'')"
proof -
  have h1: "issued (Log_log sample_config ''default'' ''web-0'' ''nginx'' ''old'' Undefined None ()) = [sample_request]"
    by (simp add: model_defs)
  have h2: "transport_error (NoResponse (Error ''ECONNREFUSED'' :: unit error)) = Some (Error ''ECONNREFUSED'')"
    by simp
  show ?thesis
    using h1 C5_transport_error [OF h1 h2, of sample_globals]
    by simp
qed

theorem C5_transport_error_counterexample:
  "transport_error (Broken \<lparr>statusCode = 200\<rparr> [''line1''] (Error ''ECONNRESET'')) =
     Some (Error ''ECONNRESET'') \<and>
   promise (run sample_globals (events (Broken \<lparr>statusCode = 200\<rparr> [''line1''] (Error ''ECONNRESET'')))
     (Log_log sample_config ''default'' ''web-0'' ''nginx'' ''old'' Undefined None ())) =
     Fulfilled (Request sample_request) \<and>
   promise (run sample_globals (events (Broken \<lparr>statusCode = 200\<rparr> [''line1''] (Error ''ECONNRESET'')))
     (Log_log sample_config ''default'' ''web-0'' ''nginx'' ''old'' Undefined None ())) \<noteq>
     Rejected (Error ''ECONNRESET'')"
  by (simp add: model_defs)

text \<open>
  C6, as amended. When the request is issued, the callback \<open>f\<close> given as fifth argument
  is applied exactly once over the exchange: to \<open>null\<close> after a completed response with
  status 200, to the raw body after a completed response with another status, to the
  transport error after a failure. When no request is issued (no current cluster, or
  \<open>applyToRequest\<close> rejected), the callback is never applied. As stated for every
  invocation, the claim fails on an invocation without a current cluster.
\<close>

theorem C6_callback:
  "(issued (Log_log config ns pod cn sink (Function f) opts u) = [ro] \<longrightarrow>
      owner (run G (events (Complete response chunks)) (Log_log config ns pod cn sink (Function f) opts u)) =
        (if statusCode response = 200 then f Null u else f (Str (concat chunks)) u) \<and>
      owner (run G (events (NoResponse err)) (Log_log config ns pod cn sink (Function f) opts u)) =
        f (Err err) u \<and>
      owner (run G (events (Broken response chunks err)) (Log_log config ns pod cn sink (Function f) opts u)) =
        f (Err err) u) \<and>
   (issued (Log_log config ns pod cn sink (Function f) opts u) = [] \<longrightarrow>
      owner (run G evs (Log_log config ns pod cn sink (Function f) opts u)) = u)"
proof (intro conjI impI)
  let ?w = "Log_log config ns pod cn sink (Function f) opts u"
  have o: "owner ?w = u" by (rule Log_log_owner)
  have c: "done_cb ?w = f" by (simp add: Log_log_done_cb arguments_def)
  {
    assume i: "issued ?w = [ro]"
    from Log_log_issued [OF i]
    have st: "req ?w = Some (Request ro)" "promise ?w = Pending" "\<not> piped ?w"
      by simp_all
    show "owner (run G (events (Complete response chunks)) ?w) =
        (if statusCode response = 200 then f Null u else f (Str (concat chunks)) u)"
    proof (cases "statusCode response = 200")
      case True
      show ?thesis unfolding run_Complete_ok [OF st(1) st(2) True] using True o c by simp
    next
      case False
      show ?thesis unfolding run_Complete_other [OF st False] using False o c by simp
    qed
    show "owner (run G (events (NoResponse err)) ?w) = f (Err err) u"
      unfolding run_NoResponse [OF st(1) st(2)] using o c by simp
    show "owner (run G (events (Broken response chunks err)) ?w) = f (Err err) u"
    proof (cases "statusCode response = 200")
      case True
      show ?thesis unfolding run_Broken_ok [OF st(1) st(2) True] using o c by simp
    next
      case False
      show ?thesis unfolding run_Broken_other [OF st False] using o c by simp
    qed
  }
  {
    assume i: "issued ?w = []"
    from Log_log_not_issued [OF i] have "req ?w = None" by simp
    then show "owner (run G evs ?w) = u" using o by (simp add: run_no_request)
  }
qed

theorem C6_callback_witness:
  "issued (Log_log sample_config ''default'' ''web-0'' ''nginx'' ''old'' (Function (#)) None []) = [sample_request] \<and>
   owner (run sample_globals (events (Complete \<lparr>statusCode = 200\<rparr> [''line1'']))
     (Log_log sample_config ''default'' ''web-0'' ''nginx'' ''old'' (Function (#)) None [])) = [Null] \<and>
   owner (run sample_globals (events (Complete \<lparr>statusCode = 404\<rparr> [''not found'']))
     (Log_log sample_config ''default'' ''web-0'' ''nginx'' ''old'' (Function (#)) None [])) = [Str ''not found''] \<and>
   owner (run sample_globals (events (NoResponse (Error ''ECONNREFUSED'')))
     (Log_log sample_config ''default'' ''web-0'' ''nginx'' ''old'' (Function (#)) None [])) =
     [Err (Error ''ECONNREFUSED'')]"
proof -
  have h1: "issued (Log_log sample_config ''default'' ''web-0'' ''nginx'' ''old'' (Function (#)) None []) = [sample_request]"
    by (simp add: model_defs)
  show ?thesis
    using h1
      C6_callback [of sample_config "''default''" "''web-0''" "''nginx''" "''old''" "(#)" None "[]"
        sample_request sample_globals "\<lparr>statusCode = 200\<rparr>" "[''line1'']" "Error ''ECONNREFUSED''"]
      C6_callback [of sample_config "''default''" "''web-0''" "''nginx''" "''old''" "(#)" None "[]"
        sample_request sample_globals "\<lparr>statusCode = 404\<rparr>" "[''not found'']" "Error ''ECONNREFUSED''"]
    by simp
qed

theorem C6_callback_counterexample:
  "promise (Log_log \<lparr>getCurrentCluster = None, applyToRequest = Inr :: Options \<Rightarrow> unit error + Options\<rparr>
      ''default'' ''web-0'' ''nginx'' ''old'' (Function (#)) None []) =
     Rejected (Error ''No currently active cluster'') \<and>
   owner (Log_log \<lparr>getCurrentCluster = None, applyToRequest = Inr :: Options \<Rightarrow> unit error + Options\<rparr>
      ''default'' ''web-0'' ''nginx'' ''old'' (Function (#)) None []) = []"
  by (simp add: model_defs)

text \<open>
  C7. With a current cluster, exactly one descriptor is built. When the options object
  \<open>obj\<close> is passed (as fifth argument, or as sixth after a callback), its query parameters
  give \<open>container\<close> the supplied container name, give every other key the value \<open>obj\<close>
  has for it, and have no key besides \<open>container\<close> and the keys of \<open>obj\<close>: a
  \<open>container\<close> key of \<open>obj\<close> is overridden. Without options the only query parameter
  is \<open>container\<close>.
\<close>

theorem C7_query_parameters:
  assumes "getCurrentCluster config = Some cluster"
  shows
    "(\<exists>ro. applied (Log_log config ns pod cn sink (Object obj) opts u) = [ro] \<and>
        qs ro ''container'' = Some (JStr cn) \<and>
        (\<forall>k. k \<noteq> ''container'' \<longrightarrow> qs ro k = obj k) \<and>
        dom (qs ro) = insert ''container'' (dom obj)) \<and>
     (\<exists>ro. applied (Log_log config ns pod cn sink (Function f) (Some obj) u) = [ro] \<and>
        qs ro ''container'' = Some (JStr cn) \<and>
        (\<forall>k. k \<noteq> ''container'' \<longrightarrow> qs ro k = obj k) \<and>
        dom (qs ro) = insert ''container'' (dom obj)) \<and>
     (\<exists>ro. applied (Log_log config ns pod cn sink Undefined opts u) = [ro] \<and>
        qs ro ''container'' = Some (JStr cn) \<and>
        dom (qs ro) = {''container''}) \<and>
     (\<exists>ro. applied (Log_log config ns pod cn sink (Function f) None u) = [ro] \<and>
        qs ro ''container'' = Some (JStr cn) \<and>
        dom (qs ro) = {''container''})"
  unfolding Log_log_applied [OF assms]
  by (simp add: requestOptions_def spread_def arguments_def)

theorem C7_query_parameters_witness:
  "getCurrentCluster sample_config = Some \<lparr>server = ''https://k8s''\<rparr> \<and>
   (\<exists>ro. applied (Log_log sample_config ''default'' ''web-0'' ''nginx'' ''old''
            (Object [''follow'' \<mapsto> JBool True, ''tailLines'' \<mapsto> JNum 10,
                     ''container'' \<mapsto> JStr ''other'']) None ()) = [ro] \<and>
         qs ro ''container'' = Some (JStr ''nginx'') \<and>
         qs ro ''follow'' = Some (JBool True) \<and>
         qs ro ''tailLines'' = Some (JNum 10))"
proof -
  have h: "getCurrentCluster sample_config = Some \<lparr>server = ''https://k8s''\<rparr>" by simp
  from C7_query_parameters
      [where config = sample_config and ns = "''default''" and pod = "''web-0''"
        and cn = "''nginx''" and sink = "''old''"
        and obj = "[''follow'' \<mapsto> JBool True, ''tailLines'' \<mapsto> JNum 10,
                    ''container'' \<mapsto> JStr ''other'']"
        and opts = None and u = "()", OF h, THEN conjunct1]
  obtain ro where ro: "applied (Log_log sample_config ''default'' ''web-0'' ''nginx'' ''old''
            (Object [''follow'' \<mapsto> JBool True, ''tailLines'' \<mapsto> JNum 10,
                     ''container'' \<mapsto> JStr ''other'']) None ()) = [ro]"
    and c: "qs ro ''container'' = Some (JStr ''nginx'')"
    and k: "\<forall>k. k \<noteq> ''container'' \<longrightarrow> qs ro k =
          [''follow'' \<mapsto> JBool True, ''tailLines'' \<mapsto> JNum 10,
           ''container'' \<mapsto> JStr ''other''] k"
    by blast
  have "''follow'' \<noteq> ''container''" by simp
  from k [rule_format, OF this] have f: "qs ro ''follow'' = Some (JBool True)" by simp
  have "''tailLines'' \<noteq> ''container''" by simp
  from k [rule_format, OF this] have t: "qs ro ''tailLines'' = Some (JNum 10)" by simp
  show ?thesis
    by (rule conjI [OF h], rule exI [of _ ro], intro conjI ro c f t)
qed

text \<open>
  C8. With a current cluster, the descriptor built is a \<open>GET\<close> whose URI is the cluster's
  server followed by \<open>/api/v1/namespaces/\<close>, the namespace, \<open>/pods/\<close>, the pod name and
  \<open>/log\<close>, the two identifiers unchanged.
\<close>

theorem C8_request_uri:
  assumes "getCurrentCluster config = Some cluster"
  shows "\<exists>ro. applied (Log_log config ns pod cn sink d opts u) = [ro] \<and>
     http_method ro = ''GET'' \<and>
     uri ro = server cluster @ ''/api/v1/namespaces/'' @ ns @ ''/pods/'' @ pod @ ''/log''"
  unfolding Log_log_applied [OF assms] by (simp add: requestOptions_def path_def)

theorem C8_request_uri_witness:
  "getCurrentCluster sample_config = Some \<lparr>server = ''https://k8s''\<rparr> \<and>
   (\<exists>ro. applied (Log_log sample_config ''default'' ''web-0'' ''nginx'' ''old'' Undefined None ()) = [ro] \<and>
         uri ro = ''https://k8s/api/v1/namespaces/default/pods/web-0/log'')"
proof -
  have h: "getCurrentCluster sample_config = Some \<lparr>server = ''https://k8s''\<rparr>" by simp
  from C8_request_uri [OF h, of "''default''" "''web-0''" "''nginx''" "''old''" Undefined None "()"]
  obtain ro where ro: "applied (Log_log sample_config ''default'' ''web-0'' ''nginx'' ''old'' Undefined None ()) = [ro]"
    and u: "uri ro = server \<lparr>server = ''https://k8s''\<rparr> @ ''/api/v1/namespaces/'' @ ''default'' @ ''/pods/'' @ ''web-0'' @ ''/log''"
    by blast
  from u have u': "uri ro = ''https://k8s/api/v1/namespaces/default/pods/web-0/log''" by simp
  show ?thesis
    by (rule conjI [OF h], rule exI [of _ ro], intro conjI ro u')
qed

text \<open>
  C9. Over any sequence of events without headers of status 200, nothing is written to
  the stream and the request is not piped; in particular over every exchange that fails
  before headers or whose headers carry another status.
\<close>

theorem C9_no_bytes_without_ok_headers:
  "(\<not> list_ex ok_headers evs \<longrightarrow>
      stream (run G evs (Log_log config ns pod cn sink d opts u)) = sink \<and>
      \<not> piped (run G evs (Log_log config ns pod cn sink d opts u))) \<and>
   (headers_status x \<noteq> Some 200 \<longrightarrow>
      stream (run G (events x) (Log_log config ns pod cn sink d opts u)) = sink)"
  using quiet_run [of "Log_log config ns pod cn sink d opts u" _ G]
    events_no_ok_headers [of x] Log_log_fresh [of config ns pod cn sink d opts u]
  by simp

theorem C9_no_bytes_without_ok_headers_witness:
  "\<not> list_ex ok_headers
       [Headers \<lparr>statusCode = 404\<rparr>, Data ''not found'',
        Completion (Finished \<lparr>statusCode = 404\<rparr> ''not found'' :: unit completion)] \<and>
   stream (run sample_globals
       [Headers \<lparr>statusCode = 404\<rparr>, Data ''not found'',
        Completion (Finished \<lparr>statusCode = 404\<rparr> ''not found'')]
       (Log_log sample_config ''default'' ''web-0'' ''nginx'' ''old'' Undefined None ())) = ''old''"
proof -
  have h: "\<not> list_ex ok_headers
       [Headers \<lparr>statusCode = 404\<rparr>, Data ''not found'',
        Completion (Finished \<lparr>statusCode = 404\<rparr> ''not found'' :: unit completion)]"
    by simp
  from C9_no_bytes_without_ok_headers
    [of "[Headers \<lparr>statusCode = 404\<rparr>, Data ''not found'',
          Completion (Finished \<lparr>statusCode = 404\<rparr> ''not found'')]"
        sample_globals sample_config "''default''" "''web-0''" "''nginx''" "''old''" Undefined None "()",
     THEN conjunct1, rule_format, OF h, THEN conjunct1]
  have s: "stream (run sample_globals
       [Headers \<lparr>statusCode = 404\<rparr>, Data ''not found'',
        Completion (Finished \<lparr>statusCode = 404\<rparr> ''not found'')]
       (Log_log sample_config ''default'' ''web-0'' ''nginx'' ''old'' Undefined None ())) = ''old''" .
  show ?thesis by (rule conjI [OF h s])
qed

text \<open>
  C10. A function as fifth argument is the callback in use, and the query parameters are
  those of the sixth argument with \<open>container\<close> set. A fifth argument that is not a
  function is the options whose query parameters are sent, with \<open>container\<close> set,
  whatever the sixth argument is, and the callback in use returns its owner's state
  unchanged; for \<open>undefined\<close> the only query parameter is \<open>container\<close>. The invocation
  with a callback is the one made with the same options as fifth argument, except for the
  callback, so with or without it the promise, the descriptors, the piping and the stream
  are the same after any sequence of events.
\<close>

theorem C10_fifth_argument:
  "done_cb (Log_log config ns pod cn sink (Function f) opts u) = f \<and>
   map qs (applied (Log_log config ns pod cn sink (Function f) (Some obj) u)) =
     (if getCurrentCluster config = None then [] else [obj(''container'' \<mapsto> JStr cn)]) \<and>
   map qs (applied (Log_log config ns pod cn sink (Function f) None u)) =
     (if getCurrentCluster config = None then [] else [[''container'' \<mapsto> JStr cn]]) \<and>
   done_cb (Log_log config ns pod cn sink (Object obj) opts u) a s = s \<and>
   map qs (applied (Log_log config ns pod cn sink (Object obj) opts u)) =
     (if getCurrentCluster config = None then [] else [obj(''container'' \<mapsto> JStr cn)]) \<and>
   done_cb (Log_log config ns pod cn sink Undefined opts u) a s = s \<and>
   map qs (applied (Log_log config ns pod cn sink Undefined opts u)) =
     (if getCurrentCluster config = None then [] else [[''container'' \<mapsto> JStr cn]]) \<and>
   Log_log config ns pod cn sink (Function f) opts u =
     (Log_log config ns pod cn sink (case opts of None \<Rightarrow> Undefined | Some obj \<Rightarrow> Object obj) opts' u)
       \<lparr>done_cb := f\<rparr> \<and>
   Log_log config ns pod cn sink (Object obj) opts u =
     Log_log config ns pod cn sink (Object obj) None u \<and>
   Log_log config ns pod cn sink Undefined opts u =
     Log_log config ns pod cn sink Undefined None u \<and>
   owner (run G evs (Log_log config ns pod cn sink (Object obj) opts u)) = u \<and>
   owner (run G evs (Log_log config ns pod cn sink Undefined opts u)) = u \<and>
   observable (run G evs (Log_log config ns pod cn sink (Function f) opts u)) =
     observable (run G evs
       (Log_log config ns pod cn sink (case opts of None \<Rightarrow> Undefined | Some obj \<Rightarrow> Object obj) opts' u))"
proof (intro conjI)
  let ?d = "case opts of None \<Rightarrow> Undefined | Some obj \<Rightarrow> Object obj"
  show "done_cb (Log_log config ns pod cn sink (Function f) opts u) = f"
    by (simp add: Log_log_done_cb arguments_def)
  show "map qs (applied (Log_log config ns pod cn sink (Function f) (Some obj) u)) =
     (if getCurrentCluster config = None then [] else [obj(''container'' \<mapsto> JStr cn)])"
    unfolding Log_log_applied_if
    by (simp add: requestOptions_def spread_def arguments_def split: option.splits)
  show "map qs (applied (Log_log config ns pod cn sink (Function f) None u)) =
     (if getCurrentCluster config = None then [] else [[''container'' \<mapsto> JStr cn]])"
    unfolding Log_log_applied_if
    by (simp add: requestOptions_def spread_def arguments_def split: option.splits)
  show o: "done_cb (Log_log config ns pod cn sink (Object obj) opts u) a s = s" for a s
    by (simp add: Log_log_done_cb arguments_def)
  show "map qs (applied (Log_log config ns pod cn sink (Object obj) opts u)) =
     (if getCurrentCluster config = None then [] else [obj(''container'' \<mapsto> JStr cn)])"
    unfolding Log_log_applied_if
    by (simp add: requestOptions_def spread_def arguments_def split: option.splits)
  show n: "done_cb (Log_log config ns pod cn sink Undefined opts u) a s = s" for a s
    by (simp add: Log_log_done_cb arguments_def)
  show "map qs (applied (Log_log config ns pod cn sink Undefined opts u)) =
     (if getCurrentCluster config = None then [] else [[''container'' \<mapsto> JStr cn]])"
    unfolding Log_log_applied_if
    by (simp add: requestOptions_def spread_def arguments_def split: option.splits)
  show eq: "Log_log config ns pod cn sink (Function f) opts u =
     (Log_log config ns pod cn sink ?d opts' u)\<lparr>done_cb := f\<rparr>"
    by (simp add: Log_log_def arguments_def Let_def split: option.splits sum.splits)
  show "Log_log config ns pod cn sink (Object obj) opts u =
     Log_log config ns pod cn sink (Object obj) None u"
    by (simp add: Log_log_def arguments_def)
  show "Log_log config ns pod cn sink Undefined opts u =
     Log_log config ns pod cn sink Undefined None u"
    by (simp add: Log_log_def arguments_def)
  from owner_run_noop [OF o]
  show "owner (run G evs (Log_log config ns pod cn sink (Object obj) opts u)) = u"
    by (simp add: Log_log_owner)
  from owner_run_noop [OF n]
  show "owner (run G evs (Log_log config ns pod cn sink Undefined opts u)) = u"
    by (simp add: Log_log_owner)
  have "observable (Log_log config ns pod cn sink (Function f) opts u) =
        observable (Log_log config ns pod cn sink ?d opts' u)"
    unfolding eq by (simp add: observable_def)
  then show "observable (run G evs (Log_log config ns pod cn sink (Function f) opts u)) =
     observable (run G evs (Log_log config ns pod cn sink ?d opts' u))"
    by (rule observable_run)
qed

theorem C10_fifth_argument_witness:
  "map qs (applied (Log_log sample_config ''default'' ''web-0'' ''nginx'' ''old''
       (Function (#)) (Some [''tailLines'' \<mapsto> JNum 10]) [])) =
     [[''tailLines'' \<mapsto> JNum 10, ''container'' \<mapsto> JStr ''nginx'']] \<and>
   map qs (applied (Log_log sample_config ''default'' ''web-0'' ''nginx'' ''old''
       (Object [''follow'' \<mapsto> JBool True]) (Some [''tailLines'' \<mapsto> JNum 10])
       ([] :: unit any list))) =
     [[''follow'' \<mapsto> JBool True, ''container'' \<mapsto> JStr ''nginx'']]"
proof -
  note inst = C10_fifth_argument
    [where config = sample_config and ns = "''default''" and pod = "''web-0''"
       and cn = "''nginx''" and sink = "''old''" and f = "(#)" and u = "[]"]
  from inst [where obj = "[''tailLines'' \<mapsto> JNum 10]", THEN conjunct2, THEN conjunct1]
  have a: "map qs (applied (Log_log sample_config ''default'' ''web-0'' ''nginx'' ''old''
       (Function (#)) (Some [''tailLines'' \<mapsto> JNum 10]) [])) =
     [[''tailLines'' \<mapsto> JNum 10, ''container'' \<mapsto> JStr ''nginx'']]"
    by simp
  from inst [where obj = "[''follow'' \<mapsto> JBool True]"
      and opts = "Some [''tailLines'' \<mapsto> JNum 10]",
      THEN conjunct2, THEN conjunct2, THEN conjunct2, THEN conjunct2, THEN conjunct1]
  have b: "map qs (applied (Log_log sample_config ''default'' ''web-0'' ''nginx'' ''old''
       (Object [''follow'' \<mapsto> JBool True]) (Some [''tailLines'' \<mapsto> JNum 10])
       ([] :: unit any list))) =
     [[''follow'' \<mapsto> JBool True, ''container'' \<mapsto> JStr ''nginx'']]"
    by simp
  show ?thesis by (rule conjI [OF a b])
qed

end
